theory Spec2Isabelle
  imports Main "HOL-Library.Sublist"
begin

section \<open>JavaScript values and strings\<close>

text \<open>
  The component GenericCrudPage works on untyped data: record attributes, pending form
  values, validator results and thrown values are JavaScript values. The values that can
  be converted to text are kept apart from \<open>undefined\<close> and \<open>null\<close>, on which
  \<open>.toString()\<close> raises a TypeError: the source calls \<open>.toString()\<close> only behind a
  guard (\<open>value == null\<close>, \<open>!value\<close>), and the model calls \<open>toString\<close> only on a
  \<open>prim\<close>, reached through the same guard.

  Numbers are the safe integers (printed by JavaScript in plain decimal); strings are
  ASCII, one \<open>char\<close> per UTF-16 code unit. Objects, arrays and functions as attribute
  values are not modelled.
\<close>

datatype prim = VBool bool | VNum int | VStr string

datatype jsval = JUndefined | JNull | JVal prim

abbreviation JBool :: "bool \<Rightarrow> jsval" where
  "JBool b \<equiv> JVal (VBool b)"

abbreviation JNum :: "int \<Rightarrow> jsval" where
  "JNum n \<equiv> JVal (VNum n)"

abbreviation JStr :: "string \<Rightarrow> jsval" where
  "JStr s \<equiv> JVal (VStr s)"

text \<open>
  An object is a finite mapping from its own property names to values. Properties
  inherited from \<open>Object.prototype\<close> (a column or field keyed \<open>constructor\<close>, say) are
  not modelled.
\<close>

type_synonym obj = "string \<rightharpoonup> jsval"

text \<open>\<open>o[k]\<close>: reading a property that the object does not have gives \<open>undefined\<close>.\<close>

definition getProp :: "obj \<Rightarrow> string \<Rightarrow> jsval" where
  "getProp ob k = (case ob k of None \<Rightarrow> JUndefined | Some v \<Rightarrow> v)"

text \<open>ToBoolean: \<open>undefined\<close>, \<open>null\<close>, \<open>false\<close>, \<open>0\<close> and \<open>""\<close> are falsy.\<close>

fun truthyPrim :: "prim \<Rightarrow> bool" where
  "truthyPrim (VBool b) = b"
| "truthyPrim (VNum n) = (n \<noteq> 0)"
| "truthyPrim (VStr s) = (s \<noteq> [])"

fun truthy :: "jsval \<Rightarrow> bool" where
  "truthy JUndefined = False"
| "truthy JNull = False"
| "truthy (JVal p) = truthyPrim p"

text \<open>Decimal digits of a natural number, most significant first.\<close>

definition digitChar :: "nat \<Rightarrow> char" where
  "digitChar d = ''0123456789'' ! d"

fun natToString :: "nat \<Rightarrow> string" where
  "natToString n = (if n < 10 then [digitChar n] else natToString (n div 10) @ [digitChar (n mod 10)])"

text \<open>\<open>value.toString()\<close> on a boolean, a number or a string.\<close>

fun toString :: "prim \<Rightarrow> string" where
  "toString (VBool b) = (if b then ''true'' else ''false'')"
| "toString (VNum n) = (if n < 0 then CHR ''-'' # natToString (nat (- n)) else natToString (nat n))"
| "toString (VStr s) = s"

text \<open>\<open>String.prototype.toLowerCase\<close> on ASCII: \<open>A\<close>..\<open>Z\<close> go to \<open>a\<close>..\<open>z\<close>.\<close>

definition lowerChar :: "char \<Rightarrow> char" where
  "lowerChar c =
     (case map_of (zip ''ABCDEFGHIJKLMNOPQRSTUVWXYZ'' ''abcdefghijklmnopqrstuvwxyz'') c of
        Some l \<Rightarrow> l
      | None \<Rightarrow> c)"

definition toLowerCase :: "string \<Rightarrow> string" where
  "toLowerCase s = map lowerChar s"

text \<open>
  The white space that \<open>String.prototype.trim\<close> strips, within ASCII: tab, line feed,
  vertical tab, form feed, carriage return and space.
\<close>

definition isWhiteSpace :: "char \<Rightarrow> bool" where
  "isWhiteSpace c = (c \<in> set [CHR 0x09, CHR 0x0A, CHR 0x0B, CHR 0x0C, CHR 0x0D, CHR '' ''])"

definition trim :: "string \<Rightarrow> string" where
  "trim s = rev (dropWhile isWhiteSpace (rev (dropWhile isWhiteSpace s)))"

text \<open>\<open>String.prototype.startsWith\<close> and \<open>String.prototype.includes\<close>, as a left-to-right search.\<close>

fun startsWith :: "string \<Rightarrow> string \<Rightarrow> bool" where
  "startsWith s [] = True"
| "startsWith [] (c # t) = False"
| "startsWith (d # s) (c # t) = (d = c \<and> startsWith s t)"

fun includes_str :: "string \<Rightarrow> string \<Rightarrow> bool" where
  "includes_str [] t = (t = [])"
| "includes_str (d # s) t = (startsWith (d # s) t \<or> includes_str s t)"

section \<open>Component interface\<close>

text \<open>A record of the caller's collection (\<open>data\<close>) is an object; its identity is the attribute \<open>id\<close>.\<close>

type_synonym item = obj

text \<open>
  Column declaration \<open>{ key, label, render, sortable }\<close>. The custom renderer produces
  markup and plays no part in searching; it is left out.
\<close>

record column =
  col_key :: string
  col_label :: string
  sortable :: bool

section \<open>Search filter\<close>

text \<open>
  The callback given to \<open>columns.some\<close> inside \<open>filteredData\<close>:
  \<^verbatim>\<open>
  col => {
    const value = item[col.key];
    if (value == null) return false;
    return value.toString().toLowerCase().includes(search.toLowerCase());
  }
  \<close>
  \<open>value == null\<close> holds for \<open>null\<close> and \<open>undefined\<close> only.
\<close>

definition columnMatches :: "string \<Rightarrow> item \<Rightarrow> column \<Rightarrow> bool" where
  "columnMatches search item col =
     (case getProp item (col_key col) of
        JUndefined \<Rightarrow> False
      | JNull \<Rightarrow> False
      | JVal p \<Rightarrow> includes_str (toLowerCase (toString p)) (toLowerCase search))"

text \<open>
  \<^verbatim>\<open>
  const filteredData = useMemo(() => {
    if (!search.trim()) return data;
    return data.filter(item => columns.some(col => ...));
  }, [data, search, columns]);
  \<close>
  \<open>!search.trim()\<close> holds exactly when the trimmed query is the empty string.
\<close>

definition filteredData :: "item list \<Rightarrow> column list \<Rightarrow> string \<Rightarrow> item list" where
  "filteredData data columns search =
     (if trim search = [] then data
      else filter (\<lambda>item. list_ex (columnMatches search item) columns) data)"

text \<open>
  The reading of the search contract that the filter is compared with. A string is
  \<open>whitespaceOnly\<close> when it is empty or made of white space only. A text contains a query ignoring case
  when some contiguous piece of the text equals the query up to letter case. The text of
  a column is the column's value converted to text; a null or absent value has none.
\<close>

definition whitespaceOnly :: "string \<Rightarrow> bool" where
  "whitespaceOnly q = (\<forall>c\<in>set q. isWhiteSpace c)"

definition containsIgnoringCase :: "string \<Rightarrow> string \<Rightarrow> bool" where
  "containsIgnoringCase txt q = (\<exists>ps u ss. txt = ps @ u @ ss \<and> toLowerCase u = toLowerCase q)"

definition columnText :: "item \<Rightarrow> column \<Rightarrow> string option" where
  "columnText item col =
     (case item (col_key col) of
        None \<Rightarrow> None
      | Some JUndefined \<Rightarrow> None
      | Some JNull \<Rightarrow> None
      | Some (JVal p) \<Rightarrow> Some (toString p))"

definition recordMatches :: "column list \<Rightarrow> string \<Rightarrow> item \<Rightarrow> bool" where
  "recordMatches columns q item =
     (\<exists>col\<in>set columns. \<exists>txt. columnText item col = Some txt \<and> containsIgnoringCase txt q)"

section \<open>Form and validation controller\<close>

text \<open>
  Form field declaration
  \<open>{ key, label, type, placeholder, required, options, validation, defaultValue }\<close>.
  Every attribute but the key may be missing from the object the caller passes: a missing
  \<open>required\<close> is falsy, a missing \<open>label\<close> reads as \<open>undefined\<close>. A validation function
  is a function of the pending value; it is taken to return (a validator that throws is
  outside the model).
\<close>

record formField =
  key :: string
  label :: "string option"
  ftype :: "string option"
  placeholder :: "string option"
  required :: bool
  options :: "(string \<times> string) list"
  validation :: "(jsval \<Rightarrow> jsval) option"
  defaultValue :: "jsval option"

text \<open>
  A call of a caller-supplied callback either returns or throws a value. The same type
  tells how a handler of the component finishes.
\<close>

datatype completion = Returned | Threw jsval

text \<open>
  What the component does to its surroundings: calls of the caller's callbacks with their
  argument, the confirmation dialog, and lines written with \<open>console.error\<close>.
\<close>

datatype event =
    OnAddCalled obj
  | OnEditCalled item
  | OnDeleteCalled jsval
  | ConfirmShown string
  | ConsoleError string jsval

text \<open>A style object maps CSS property names to values.\<close>

type_synonym style = "string \<rightharpoonup> string"

text \<open>
  The props that the handlers, the filter and the style resolver read. The props that
  only reach the markup (\<open>title\<close>, \<open>loading\<close>, \<open>error\<close>, \<open>onRefresh\<close>, \<open>renderActions\<close>, the
  icons and the display texts) are left out. A callback that is not supplied is \<open>None\<close>.
\<close>

record props =
  data :: "item list"
  columns :: "column list"
  formFields :: "formField list"
  onAdd :: "(obj \<Rightarrow> completion) option"
  onEdit :: "(item \<Rightarrow> completion) option"
  onDelete :: "(jsval \<Rightarrow> completion) option"
  customStyles :: "string \<rightharpoonup> style"
  confirmDelete :: bool

text \<open>
  The four \<open>useState\<close> slices, and the effects observed so far (\<open>trace\<close>, which is not
  React state: it records what the handlers did, in order).
\<close>

record state =
  formState :: obj
  search :: string
  formErrors :: obj
  editingItem :: "item option"
  trace :: "event list"

text \<open>
  \<^verbatim>\<open>
  const [formState, setFormState] = useState({});
  const [search, setSearch] = useState('');
  const [formErrors, setFormErrors] = useState({});
  const [editingItem, setEditingItem] = useState(null);
  \<close>
\<close>

definition mount :: "props \<Rightarrow> state" where
  "mount p = \<lparr>formState = Map.empty, search = [], formErrors = Map.empty, editingItem = None, trace = []\<rparr>"

text \<open>The required check of \<open>validateField\<close>: \<open>!value || value.toString().trim() === ''\<close>.\<close>

fun blankValue :: "jsval \<Rightarrow> bool" where
  "blankValue JUndefined = True"
| "blankValue JNull = True"
| "blankValue (JVal p) = (\<not> truthyPrim p \<or> trim (toString p) = [])"

text \<open>\<open>${field.label}\<close> inside a template literal: a missing label prints as \<open>undefined\<close>.\<close>

fun templateText :: "string option \<Rightarrow> string" where
  "templateText None = ''undefined''"
| "templateText (Some s) = s"

text \<open>
  \<^verbatim>\<open>
  const validateField = useCallback((field, value) => {
    if (field.required && (!value || value.toString().trim() === '')) {
      return `${field.label} is required`;
    }
    if (field.validation) {
      const validationResult = field.validation(value);
      if (validationResult !== true) {
        return validationResult;
      }
    }
    return null;
  }, []);
  \<close>
  The model returns the value of \<open>validateField\<close> together with the arguments with which
  it invoked the field's validation function, in order.
\<close>

definition validateField :: "formField \<Rightarrow> jsval \<Rightarrow> jsval \<times> jsval list" where
  "validateField field v =
     (if required field \<and> blankValue v then (JStr (templateText (label field) @ '' is required''), [])
      else (case validation field of
              None \<Rightarrow> (JNull, [])
            | Some validate \<Rightarrow>
                (let validationResult = validate v in
                 if validationResult \<noteq> JBool True then (validationResult, [v])
                 else (JNull, [v]))))"

text \<open>\<open>validateField(field, formState[field.key])\<close>, the \<open>error\<close> of a field in \<open>validateForm\<close>.\<close>

abbreviation fieldError :: "obj \<Rightarrow> formField \<Rightarrow> jsval" where
  "fieldError fs field \<equiv> fst (validateField field (getProp fs (key field)))"

text \<open>
  \<^verbatim>\<open>
  const validateForm = useCallback(() => {
    const errors = {};
    let isValid = true;
    formFields.forEach(field => {
      const error = validateField(field, formState[field.key]);
      if (error) {
        errors[field.key] = error;
        isValid = false;
      }
    });
    setFormErrors(errors);
    return isValid;
  }, [formState, formFields, validateField]);
  \<close>
  The \<open>forEach\<close> loop carries \<open>errors\<close> and \<open>isValid\<close>.
\<close>

fun validateForm_loop :: "formField list \<Rightarrow> obj \<Rightarrow> obj \<times> bool \<Rightarrow> obj \<times> bool" where
  "validateForm_loop [] fs (errors, isValid) = (errors, isValid)"
| "validateForm_loop (field # rest) fs (errors, isValid) =
     (let error = fieldError fs field in
      if truthy error then validateForm_loop rest fs (errors(key field \<mapsto> error), False)
      else validateForm_loop rest fs (errors, isValid))"

definition validateForm :: "props \<Rightarrow> state \<Rightarrow> bool \<times> state" where
  "validateForm p st =
     (let (errors, isValid) = validateForm_loop (formFields p) (formState st) (Map.empty, True)
      in (isValid, st\<lparr>formErrors := errors\<rparr>))"

text \<open>
  \<^verbatim>\<open>
  const handleFieldChange = useCallback((fieldKey, value) => {
    setFormState(prev => ({ ...prev, [fieldKey]: value }));
    if (formErrors[fieldKey]) {
      setFormErrors(prev => ({ ...prev, [fieldKey]: null }));
    }
  }, [formErrors]);
  \<close>
\<close>

definition handleFieldChange :: "string \<Rightarrow> jsval \<Rightarrow> state \<Rightarrow> state" where
  "handleFieldChange fieldKey v st =
     (let st1 = st\<lparr>formState := (formState st)(fieldKey \<mapsto> v)\<rparr> in
      if truthy (getProp (formErrors st) fieldKey)
      then st1\<lparr>formErrors := (formErrors st)(fieldKey \<mapsto> JNull)\<rparr>
      else st1)"

subsection \<open>Statements that may throw\<close>

text \<open>
  A handler body takes the state and gives back how it finished and the state it left.
  \<open>invoke\<close> is the call of a callback: the call is recorded, and the body finishes as the
  callback does. \<open>andThen\<close> is sequencing: what follows a throwing statement is skipped.
  \<open>try_catch\<close> runs the catch clause on the thrown value.
\<close>

type_synonym handler = "state \<Rightarrow> completion \<times> state"

definition emit :: "event \<Rightarrow> state \<Rightarrow> state" where
  "emit ev st = st\<lparr>trace := trace st @ [ev]\<rparr>"

definition skip :: handler where
  "skip st = (Returned, st)"

definition invoke :: "event \<Rightarrow> completion \<Rightarrow> handler" where
  "invoke ev result st = (result, emit ev st)"

definition andThen :: "handler \<Rightarrow> handler \<Rightarrow> handler" where
  "andThen first second st =
     (case first st of
        (Returned, st') \<Rightarrow> second st'
      | (Threw err, st') \<Rightarrow> (Threw err, st'))"

definition try_catch :: "handler \<Rightarrow> (jsval \<Rightarrow> handler) \<Rightarrow> handler" where
  "try_catch body catch st =
     (case body st of
        (Returned, st') \<Rightarrow> (Returned, st')
      | (Threw err, st') \<Rightarrow> catch err st')"

definition console_error :: "string \<Rightarrow> jsval \<Rightarrow> handler" where
  "console_error msg err st = (Returned, emit (ConsoleError msg err) st)"

subsection \<open>Handlers\<close>

text \<open>
  \<^verbatim>\<open>
  const handleAdd = useCallback(() => {
    if (!validateForm()) return;
    try {
      onAdd && onAdd(formState);
      setFormState({});
      setFormErrors({});
    } catch (err) {
      console.error('Error adding item:', err);
    }
  }, [formState, validateForm, onAdd]);
  \<close>
  \<open>formState\<close> is the value of the render in which the handler was created, the state
  the handler starts from.
\<close>

definition handleAdd :: "props \<Rightarrow> handler" where
  "handleAdd p st =
     (let (isValid, st1) = validateForm p st in
      if \<not> isValid then (Returned, st1)
      else try_catch
             (andThen
                (case onAdd p of
                   None \<Rightarrow> skip
                 | Some callback \<Rightarrow> invoke (OnAddCalled (formState st)) (callback (formState st)))
                (\<lambda>s. (Returned, s\<lparr>formState := Map.empty, formErrors := Map.empty\<rparr>)))
             (console_error ''Error adding item:'')
             st1)"

text \<open>
  \<^verbatim>\<open>
  const handleEdit = useCallback((item) => {
    try {
      onEdit && onEdit(item);
    } catch (err) {
      console.error('Error editing item:', err);
    }
  }, [onEdit]);
  \<close>
\<close>

definition handleEdit :: "props \<Rightarrow> item \<Rightarrow> handler" where
  "handleEdit p item =
     try_catch
       (case onEdit p of
          None \<Rightarrow> skip
        | Some callback \<Rightarrow> invoke (OnEditCalled item) (callback item))
       (console_error ''Error editing item:'')"

text \<open>
  \<^verbatim>\<open>
  const handleDelete = useCallback((id) => {
    const confirmMessage = confirmDelete
      ? `Are you sure you want to delete this item?`
      : null;
    if (confirmMessage && !window.confirm(confirmMessage)) {
      return;
    }
    try {
      onDelete && onDelete(id);
    } catch (err) {
      console.error('Error deleting item:', err);
    }
  }, [onDelete, confirmDelete]);
  \<close>
  \<open>window.confirm\<close> is the user's answer to the dialog, a parameter of the model.
\<close>

definition handleDelete :: "(string \<Rightarrow> bool) \<Rightarrow> props \<Rightarrow> jsval \<Rightarrow> handler" where
  "handleDelete window_confirm p itemId st =
     (let confirmMessage =
            (if confirmDelete p then Some ''Are you sure you want to delete this item?'' else None);
          tryDelete =
            try_catch
              (case onDelete p of
                 None \<Rightarrow> skip
               | Some callback \<Rightarrow> invoke (OnDeleteCalled itemId) (callback itemId))
              (console_error ''Error deleting item:'')
      in case confirmMessage of
           None \<Rightarrow> tryDelete st
         | Some msg \<Rightarrow>
             (if \<not> window_confirm msg then (Returned, emit (ConfirmShown msg) st)
              else tryDelete (emit (ConfirmShown msg) st)))"

text \<open>\<open>handleFormSubmit\<close>: \<open>e.preventDefault(); handleAdd();\<close>\<close>

definition handleFormSubmit :: "props \<Rightarrow> handler" where
  "handleFormSubmit p = handleAdd p"

text \<open>
  The Delete button of a row, rendered when \<open>onDelete\<close> is supplied:
  \<open>onClick={() => handleDelete(item.id)}\<close>.
\<close>

definition deleteButtonClick :: "(string \<Rightarrow> bool) \<Rightarrow> props \<Rightarrow> item \<Rightarrow> handler" where
  "deleteButtonClick window_confirm p item = handleDelete window_confirm p (getProp item ''id'')"

text \<open>
  The value shown by a field's input or select: \<open>value={formState[field.key] || ''}\<close>.
\<close>

definition inputValue :: "state \<Rightarrow> formField \<Rightarrow> jsval" where
  "inputValue st field =
     (let v = getProp (formState st) (key field) in if truthy v then v else JStr [])"

text \<open>
  What the user does to the form: typing into the input of a field
  (\<open>onChange={(e) => handleFieldChange(field.key, e.target.value)}\<close>) and submitting.
\<close>

datatype userAction = TypeInto string string | SubmitForm

fun step :: "props \<Rightarrow> userAction \<Rightarrow> state \<Rightarrow> state" where
  "step p (TypeInto fieldKey txt) st = handleFieldChange fieldKey (JStr txt) st"
| "step p SubmitForm st = snd (handleFormSubmit p st)"

definition run :: "props \<Rightarrow> userAction list \<Rightarrow> state" where
  "run p actions = fold (step p) actions (mount p)"

section \<open>Style resolver\<close>

text \<open>
  \<open>defaultStyles\<close> of styles.js: for each named region, the default style object. An
  object literal is written as the list of its entries, in the order of the source.
\<close>

definition defaultStyles :: "(string \<times> (string \<times> string) list) list" where
  "defaultStyles =
     [(''container'',
         [(''fontFamily'', ''-apple-system, BlinkMacSystemFont, \"Segoe UI\", Roboto, sans-serif''),
          (''maxWidth'', ''1200px''),
          (''margin'', ''0 auto''),
          (''padding'', ''20px''),
          (''backgroundColor'', ''#ffffff''),
          (''borderRadius'', ''8px''),
          (''boxShadow'', ''0 2px 10px rgba(0, 0, 0, 0.1)'')]),
      (''header'',
         [(''display'', ''flex''),
          (''justifyContent'', ''space-between''),
          (''alignItems'', ''center''),
          (''marginBottom'', ''24px''),
          (''paddingBottom'', ''16px''),
          (''borderBottom'', ''1px solid #e1e5e9'')]),
      (''form'',
         [(''display'', ''grid''),
          (''gridTemplateColumns'', ''repeat(auto-fit, minmax(200px, 1fr))''),
          (''gap'', ''16px''),
          (''marginBottom'', ''24px''),
          (''padding'', ''20px''),
          (''backgroundColor'', ''#f8f9fa''),
          (''borderRadius'', ''8px''),
          (''border'', ''1px solid #e1e5e9'')]),
      (''formField'',
         [(''display'', ''flex''),
          (''flexDirection'', ''column''),
          (''gap'', ''8px'')]),
      (''addButton'',
         [(''display'', ''flex''),
          (''alignItems'', ''center''),
          (''gap'', ''8px''),
          (''padding'', ''12px 24px''),
          (''backgroundColor'', ''#007bff''),
          (''color'', ''white''),
          (''border'', ''none''),
          (''borderRadius'', ''6px''),
          (''cursor'', ''pointer''),
          (''fontSize'', ''14px''),
          (''fontWeight'', ''500''),
          (''transition'', ''background-color 0.2s''),
          (''alignSelf'', ''end'')]),
      (''refreshButton'',
         [(''display'', ''flex''),
          (''alignItems'', ''center''),
          (''gap'', ''8px''),
          (''padding'', ''8px 16px''),
          (''backgroundColor'', ''#6c757d''),
          (''color'', ''white''),
          (''border'', ''none''),
          (''borderRadius'', ''6px''),
          (''cursor'', ''pointer''),
          (''fontSize'', ''14px''),
          (''transition'', ''background-color 0.2s'')]),
      (''searchBar'',
         [(''display'', ''flex''),
          (''justifyContent'', ''space-between''),
          (''alignItems'', ''center''),
          (''marginBottom'', ''20px''),
          (''gap'', ''16px'')]),
      (''table'',
         [(''width'', ''100%''),
          (''borderCollapse'', ''collapse''),
          (''backgroundColor'', ''white''),
          (''borderRadius'', ''8px''),
          (''overflow'', ''hidden''),
          (''boxShadow'', ''0 1px 3px rgba(0, 0, 0, 0.1)'')]),
      (''loading'',
         [(''textAlign'', ''center''),
          (''padding'', ''40px''),
          (''color'', ''#6c757d''),
          (''fontSize'', ''16px'')]),
      (''empty'',
         [(''textAlign'', ''center''),
          (''padding'', ''40px''),
          (''color'', ''#6c757d''),
          (''fontSize'', ''16px''),
          (''backgroundColor'', ''#f8f9fa''),
          (''borderRadius'', ''8px''),
          (''border'', ''1px solid #e1e5e9'')])]"

text \<open>
  \<open>{ ...defaultStyles[key], ...customStyles[key] }\<close>: the entries of the default object,
  then those of the override on top. Spreading \<open>undefined\<close> (no override for the region)
  adds nothing.
\<close>

definition spread :: "style \<Rightarrow> style option \<Rightarrow> style" where
  "spread dflt override = (case override of None \<Rightarrow> dflt | Some ov \<Rightarrow> dflt ++ ov)"

text \<open>
  \<^verbatim>\<open>
  const styles = useMemo(() => {
    const merged = {};
    Object.keys(defaultStyles).forEach(key => {
      merged[key] = { ...defaultStyles[key], ...customStyles[key] };
    });
    return merged;
  }, [customStyles]);
  \<close>
\<close>

definition styles :: "(string \<rightharpoonup> style) \<Rightarrow> (string \<rightharpoonup> style)" where
  "styles custom =
     fold (\<lambda>(key, dflt) merged. merged(key \<mapsto> spread (map_of dflt) (custom key)))
       defaultStyles Map.empty"

section \<open>Concrete inputs\<close>

text \<open>Callbacks that return, and callbacks that throw the string \<open>boom\<close>.\<close>

definition acceptingCallback :: "'a \<Rightarrow> completion" where
  "acceptingCallback x = Returned"

definition throwingCallback :: "'a \<Rightarrow> completion" where
  "throwingCallback x = Threw (JStr ''boom'')"

text \<open>The user's answer to the confirmation dialog: always no, always yes.\<close>

definition declineDialog :: "string \<Rightarrow> bool" where
  "declineDialog msg = False"

definition acceptDialog :: "string \<Rightarrow> bool" where
  "acceptDialog msg = True"

text \<open>What a catch clause writes to the console, given how the guarded call finished.\<close>

definition caught :: "string \<Rightarrow> completion \<Rightarrow> event list" where
  "caught msg result = (case result of Returned \<Rightarrow> [] | Threw err \<Rightarrow> [ConsoleError msg err])"

text \<open>The collection and the columns used by the repository's test suite.\<close>

definition mockJohn :: item where
  "mockJohn = [''id'' \<mapsto> JNum 1, ''name'' \<mapsto> JStr ''John Doe'', ''email'' \<mapsto> JStr ''john@example.com'']"

definition mockJane :: item where
  "mockJane = [''id'' \<mapsto> JNum 2, ''name'' \<mapsto> JStr ''Jane Smith'', ''email'' \<mapsto> JStr ''jane@example.com'']"

definition mockData :: "item list" where
  "mockData = [mockJohn, mockJane]"

definition mockColumns :: "column list" where
  "mockColumns =
     [\<lparr>col_key = ''name'', col_label = ''Name'', sortable = False\<rparr>,
      \<lparr>col_key = ''email'', col_label = ''Email'', sortable = False\<rparr>]"

text \<open>A record whose name is null and whose email is john@example.com.\<close>

definition namelessJohn :: item where
  "namelessJohn = [''id'' \<mapsto> JNum 3, ''name'' \<mapsto> JNull, ''email'' \<mapsto> JStr ''john@example.com'']"

text \<open>The form fields and the props of the repository's test suite.\<close>

definition mockFormFields :: "formField list" where
  "mockFormFields =
     [\<lparr>key = ''name'', label = Some ''Name'', ftype = None, placeholder = None, required = True,
       options = [], validation = None, defaultValue = None\<rparr>,
      \<lparr>key = ''email'', label = Some ''Email'', ftype = Some ''email'', placeholder = None,
       required = True, options = [], validation = None, defaultValue = None\<rparr>]"

definition mockProps :: props where
  "mockProps =
     \<lparr>data = mockData, columns = mockColumns, formFields = mockFormFields,
      onAdd = Some acceptingCallback, onEdit = Some acceptingCallback,
      onDelete = Some acceptingCallback, customStyles = Map.empty, confirmDelete = True\<rparr>"

text \<open>The same props with callbacks that throw.\<close>

definition throwingProps :: props where
  "throwingProps =
     mockProps\<lparr>onAdd := Some throwingCallback, onEdit := Some throwingCallback,
               onDelete := Some throwingCallback\<rparr>"

text \<open>The form of the test suite after typing a name and an email address.\<close>

definition filledActions :: "userAction list" where
  "filledActions = [TypeInto ''name'' ''New User'', TypeInto ''email'' ''new@example.com'']"

text \<open>
  The field list \<open>[{key:"name",required:true},{key:"email",required:true}]\<close>, as written
  (no labels), and the same list with the labels \<open>Name\<close> and \<open>Email\<close>.
\<close>

definition unlabelledFields :: "formField list" where
  "unlabelledFields =
     [\<lparr>key = ''name'', label = None, ftype = None, placeholder = None, required = True,
       options = [], validation = None, defaultValue = None\<rparr>,
      \<lparr>key = ''email'', label = None, ftype = None, placeholder = None, required = True,
       options = [], validation = None, defaultValue = None\<rparr>]"

definition labelledFields :: "formField list" where
  "labelledFields =
     [\<lparr>key = ''name'', label = Some ''Name'', ftype = None, placeholder = None, required = True,
       options = [], validation = None, defaultValue = None\<rparr>,
      \<lparr>key = ''email'', label = Some ''Email'', ftype = None, placeholder = None, required = True,
       options = [], validation = None, defaultValue = None\<rparr>]"

text \<open>Two required fields declared under the same key.\<close>

definition sameKeyFields :: "formField list" where
  "sameKeyFields =
     [\<lparr>key = ''name'', label = Some ''First name'', ftype = None, placeholder = None,
       required = True, options = [], validation = None, defaultValue = None\<rparr>,
      \<lparr>key = ''name'', label = Some ''Last name'', ftype = None, placeholder = None,
       required = True, options = [], validation = None, defaultValue = None\<rparr>]"

text \<open>
  An optional field whose validation function rejects every value with the empty string
  as its message (\<open>value => ''\<close>, of the declared type \<open>(value: any) => true | string\<close>).
\<close>

definition emptyMessage :: "jsval \<Rightarrow> jsval" where
  "emptyMessage v = JStr []"

definition emptyMessageFields :: "formField list" where
  "emptyMessageFields =
     [\<lparr>key = ''code'', label = Some ''Code'', ftype = None, placeholder = None, required = False,
       options = [], validation = Some emptyMessage, defaultValue = None\<rparr>]"

text \<open>A validation function in the style of the README's \<open>validateEmail\<close>.\<close>

definition atLeastThree :: "jsval \<Rightarrow> jsval" where
  "atLeastThree v =
     (case v of
        JVal (VStr s) \<Rightarrow> if 3 \<le> length s then JBool True else JStr ''Too short''
      | _ \<Rightarrow> JStr ''Too short'')"

definition codeField :: formField where
  "codeField =
     \<lparr>key = ''code'', label = Some ''Code'', ftype = None, placeholder = None, required = True,
      options = [], validation = Some atLeastThree, defaultValue = Some (JStr ''abc'')\<rparr>"

text \<open>The override of the test suite: \<open>{ container: { backgroundColor: 'red' } }\<close>.\<close>

definition redContainer :: "string \<rightharpoonup> style" where
  "redContainer = [''container'' \<mapsto> [''backgroundColor'' \<mapsto> ''red'']]"

section \<open>Properties of the search filter\<close>

lemma startsWith_prefix: "startsWith s t \<longleftrightarrow> prefix t s"
  by (induction s t rule: startsWith.induct) auto

lemma includes_str_sublist: "includes_str s t \<longleftrightarrow> sublist t s"
  by (induction s) (auto simp: startsWith_prefix sublist_Cons_right)

lemma sublist_map_pieces:
  "sublist (map f q) (map f t) \<longleftrightarrow> (\<exists>ps u ss. t = ps @ u @ ss \<and> map f u = map f q)"
proof
  assume "sublist (map f q) (map f t)"
  then obtain a c where "map f t = a @ map f q @ c"
    by (auto simp: sublist_def)
  then obtain ps r where t: "t = ps @ r" and r: "map f r = map f q @ c"
    by (metis map_eq_append_conv)
  from r obtain u ss where "r = u @ ss" and "map f u = map f q"
    by (metis map_eq_append_conv)
  with t show "\<exists>ps u ss. t = ps @ u @ ss \<and> map f u = map f q"
    by blast
next
  assume "\<exists>ps u ss. t = ps @ u @ ss \<and> map f u = map f q"
  then obtain ps u ss where "t = ps @ u @ ss" and "map f u = map f q"
    by blast
  then have "map f t = map f ps @ map f q @ map f ss"
    by simp
  then show "sublist (map f q) (map f t)"
    by (auto simp: sublist_def)
qed

lemma includes_str_ignoring_case:
  "includes_str (toLowerCase txt) (toLowerCase q) \<longleftrightarrow> containsIgnoringCase txt q"
  by (simp add: includes_str_sublist toLowerCase_def containsIgnoringCase_def sublist_map_pieces)

lemma all_dropWhile: "(\<forall>c\<in>set (dropWhile P s). P c) \<longleftrightarrow> (\<forall>c\<in>set s. P c)"
  by (induction s) auto

lemma trim_empty_iff: "trim s = [] \<longleftrightarrow> whitespaceOnly s"
  by (simp add: trim_def whitespaceOnly_def dropWhile_eq_Nil_conv all_dropWhile)

lemma columnMatches_iff:
  "columnMatches q item col \<longleftrightarrow> (\<exists>txt. columnText item col = Some txt \<and> containsIgnoringCase txt q)"
  by (auto simp: columnMatches_def columnText_def getProp_def includes_str_ignoring_case
      split: option.splits jsval.splits)

lemma some_column_matches: "list_ex (columnMatches q item) cols \<longleftrightarrow> recordMatches cols q item"
  by (simp add: list_ex_iff recordMatches_def columnMatches_iff)

text \<open>
  C1. The filtered view is the input collection when the query is empty or white space
  only; otherwise it is exactly the records, in the order of the input, for which some
  declared column has a text (a value that is neither null nor absent, converted to
  text) containing the query ignoring case.
\<close>

theorem filteredData_contract:
  "filteredData D cols q = (if whitespaceOnly q then D else filter (recordMatches cols q) D)"
  by (simp add: filteredData_def trim_empty_iff some_column_matches)

theorem filteredData_contract_witness:
  "\<not> whitespaceOnly ''John'' \<and> whitespaceOnly '' '' \<and>
   filter (recordMatches mockColumns ''John'') (namelessJohn # mockData) = [namelessJohn, mockJohn] \<and>
   columnText namelessJohn (hd mockColumns) = None"
proof -
  have "filteredData (namelessJohn # mockData) mockColumns ''John'' = [namelessJohn, mockJohn]"
    by (simp add: filteredData_def trim_def isWhiteSpace_def columnMatches_def getProp_def
        toLowerCase_def lowerChar_def mockData_def mockColumns_def mockJohn_def mockJane_def
        namelessJohn_def)
  moreover have "\<not> whitespaceOnly ''John''" "whitespaceOnly '' ''"
    by (simp_all add: whitespaceOnly_def isWhiteSpace_def)
  moreover have "columnText namelessJohn (hd mockColumns) = None"
    by (simp add: columnText_def namelessJohn_def mockColumns_def)
  ultimately show ?thesis
    using filteredData_contract [of "namelessJohn # mockData" mockColumns "''John''"] by simp
qed

text \<open>
  C7. Filtering is idempotent, the filtered view is a subsequence of the input collection
  (a subset, in the original relative order), and an empty or white-space-only query
  gives back the input collection itself.
\<close>

theorem filteredData_idempotent_subseq:
  "filteredData (filteredData D cols q) cols q = filteredData D cols q \<and>
   subseq (filteredData D cols q) D \<and>
   set (filteredData D cols q) \<subseteq> set D \<and>
   (whitespaceOnly q \<longrightarrow> filteredData D cols q = D)"
  by (simp add: filteredData_def trim_empty_iff)

theorem filteredData_idempotent_subseq_witness:
  "whitespaceOnly '' '' \<and> filteredData mockData mockColumns '' '' = mockData \<and>
   subseq (filteredData mockData mockColumns ''John'') mockData \<and>
   filteredData (filteredData mockData mockColumns ''John'') mockColumns ''John''
     = filteredData mockData mockColumns ''John''"
  using filteredData_idempotent_subseq [of mockData mockColumns "'' ''"]
    filteredData_idempotent_subseq [of mockData mockColumns "''John''"]
  by (simp add: whitespaceOnly_def isWhiteSpace_def)

section \<open>Properties of the form and validation controller\<close>

subsection \<open>The validation loop\<close>

lemma loop_valid:
  "snd (validateForm_loop flds fs (errs, v)) = (v \<and> (\<forall>f\<in>set flds. \<not> truthy (fieldError fs f)))"
  by (induction flds arbitrary: errs v) (auto simp: Let_def)

lemma loop_all_valid:
  "\<forall>f\<in>set flds. \<not> truthy (fieldError fs f) \<Longrightarrow> fst (validateForm_loop flds fs (errs, v)) = errs"
  by (induction flds arbitrary: errs v) (auto simp: Let_def)

lemma loop_untouched:
  "\<forall>f\<in>set flds. key f = k \<longrightarrow> \<not> truthy (fieldError fs f) \<Longrightarrow>
   fst (validateForm_loop flds fs (errs, v)) k = errs k"
  by (induction flds arbitrary: errs v) (auto simp: Let_def)

text \<open>Under a key with an erring field, the loop leaves the message of one of them (the last).\<close>

lemma loop_recorded:
  "\<exists>g\<in>set flds. key g = k \<and> truthy (fieldError fs g) \<Longrightarrow>
   \<exists>g\<in>set flds. key g = k \<and> truthy (fieldError fs g) \<and>
      fst (validateForm_loop flds fs (errs, v)) k = Some (fieldError fs g)"
proof (induction flds arbitrary: errs v)
  case Nil
  then show ?case by simp
next
  case (Cons a flds)
  show ?case
  proof (cases "\<exists>g\<in>set flds. key g = k \<and> truthy (fieldError fs g)")
    case True
    from Cons.IH[OF True] show ?thesis
      by (auto simp: Let_def)
  next
    case False
    then have rest: "\<forall>g\<in>set flds. key g = k \<longrightarrow> \<not> truthy (fieldError fs g)"
      by blast
    with Cons.prems have "key a = k" and "truthy (fieldError fs a)"
      by auto
    with loop_untouched[OF rest] show ?thesis
      by (auto simp: Let_def)
  qed
qed

lemma loop_distinct:
  assumes "distinct (map key flds)" and "f \<in> set flds" and "truthy (fieldError fs f)"
  shows "fst (validateForm_loop flds fs (errs, v)) (key f) = Some (fieldError fs f)"
proof -
  from assms(2,3) have "\<exists>g\<in>set flds. key g = key f \<and> truthy (fieldError fs g)"
    by blast
  from loop_recorded[OF this] obtain g where g: "g \<in> set flds" "key g = key f"
    and rec: "fst (validateForm_loop flds fs (errs, v)) (key f) = Some (fieldError fs g)"
    by blast
  from assms(1,2) g have "g = f"
    by (meson distinct_map inj_onD)
  with rec show ?thesis by simp
qed

lemma validateForm_eq:
  "validateForm p st =
     (\<forall>f\<in>set (formFields p). \<not> truthy (fieldError (formState st) f),
      st\<lparr>formErrors := fst (validateForm_loop (formFields p) (formState st) (Map.empty, True))\<rparr>)"
proof -
  obtain errs v where "validateForm_loop (formFields p) (formState st) (Map.empty, True) = (errs, v)"
    by (cases "validateForm_loop (formFields p) (formState st) (Map.empty, True)")
  with loop_valid[of "formFields p" "formState st" Map.empty True] show ?thesis
    by (simp add: validateForm_def)
qed

subsection \<open>Handlers never throw\<close>

lemma handleAdd_returns: "fst (handleAdd p st) = Returned"
  by (cases "onAdd p"; cases "the (onAdd p) (formState st)")
     (simp_all add: handleAdd_def validateForm_eq try_catch_def andThen_def invoke_def skip_def
       console_error_def)

lemma handleEdit_returns: "fst (handleEdit p item st) = Returned"
  by (cases "onEdit p"; cases "the (onEdit p) item")
     (simp_all add: handleEdit_def try_catch_def invoke_def skip_def console_error_def)

lemma handleDelete_returns: "fst (handleDelete w p i st) = Returned"
  by (cases "onDelete p"; cases "the (onDelete p) i")
     (simp_all add: handleDelete_def try_catch_def invoke_def skip_def console_error_def Let_def)

lemma tryDelete_eq:
  "try_catch (invoke (OnDeleteCalled i) r) (console_error m) st
     = (Returned, st\<lparr>trace := trace st @ OnDeleteCalled i # caught m r\<rparr>)"
  by (cases r) (simp_all add: try_catch_def invoke_def console_error_def emit_def caught_def)

subsection \<open>Evaluation of the concrete inputs\<close>

lemma run_filled:
  "run p filledActions =
     \<lparr>formState = [''name'' \<mapsto> JStr ''New User'', ''email'' \<mapsto> JStr ''new@example.com''],
      search = [], formErrors = Map.empty, editingItem = None, trace = []\<rparr>"
  by (simp add: run_def filledActions_def mount_def handleFieldChange_def getProp_def)

lemma mock_fields_filled_valid:
  "\<forall>f\<in>set mockFormFields.
     \<not> truthy (fieldError [''name'' \<mapsto> JStr ''New User'', ''email'' \<mapsto> JStr ''new@example.com''] f)"
  by (simp add: mockFormFields_def validateField_def getProp_def trim_def isWhiteSpace_def)

subsection \<open>Field validation\<close>

text \<open>
  C4. For every declared field and pending value: if the field is required and the value
  is absent or blank after trimming (more generally, falsy or blank), \<open>validateField\<close>
  yields exactly the message \<open><label> is required\<close> built from the field's label and does
  not invoke the field's validation function. The validation function is invoked, once
  and with the pending value, only when the required check passed; a result other than
  \<open>true\<close> is returned verbatim as the field's error, and \<open>true\<close> gives \<open>null\<close>.
\<close>

theorem validateField_contract:
  "(required field \<and> label field = Some l \<and>
      (v = JUndefined \<or> (\<exists>s. v = JStr s \<and> whitespaceOnly s)) \<longrightarrow>
      validateField field v = (JStr (l @ '' is required''), [])) \<and>
   (required field \<and> blankValue v \<longrightarrow>
      validateField field v = (JStr (templateText (label field) @ '' is required''), [])) \<and>
   (\<not> (required field \<and> blankValue v) \<longrightarrow>
      (case validation field of
         None \<Rightarrow> validateField field v = (JNull, [])
       | Some validate \<Rightarrow>
           snd (validateField field v) = [v] \<and>
           (validate v \<noteq> JBool True \<longrightarrow> fst (validateField field v) = validate v) \<and>
           (validate v = JBool True \<longrightarrow> fst (validateField field v) = JNull)))"
  by (auto simp: validateField_def Let_def trim_empty_iff split: option.splits)

theorem validateField_contract_witness:
  "required codeField \<and> label codeField = Some ''Code'' \<and> whitespaceOnly ''  '' \<and>
   validateField codeField (JStr ''  '') = (JStr ''Code is required'', []) \<and>
   validateField codeField JUndefined = (JStr ''Code is required'', []) \<and>
   \<not> blankValue (JStr ''ab'') \<and>
   validateField codeField (JStr ''ab'') = (JStr ''Too short'', [JStr ''ab'']) \<and>
   validateField codeField (JStr ''abcd'') = (JNull, [JStr ''abcd''])"
proof -
  have c: "required codeField" "label codeField = Some ''Code''"
    "validation codeField = Some atLeastThree"
    by (simp_all add: codeField_def)
  have w: "whitespaceOnly ''  ''" "\<not> blankValue (JStr ''ab'')" "\<not> blankValue (JStr ''abcd'')"
    by (simp_all add: whitespaceOnly_def isWhiteSpace_def trim_def)
  have a: "atLeastThree (JStr ''ab'') = JStr ''Too short''" "atLeastThree (JStr ''abcd'') = JBool True"
    by (simp_all add: atLeastThree_def)
  show ?thesis
    using validateField_contract [of codeField "''Code''" "JStr ''  ''"]
      validateField_contract [of codeField "''Code''" JUndefined]
      validateField_contract [of codeField "''Code''" "JStr ''ab''"]
      validateField_contract [of codeField "''Code''" "JStr ''abcd''"]
    by (simp add: c w a prod_eq_iff trim_def isWhiteSpace_def whitespaceOnly_def)
qed

subsection \<open>Submitting the form\<close>

text \<open>
  C2, as the code has it. For every form state in which no declared field has an error
  (a truthy result of \<open>validateField\<close>) and for every supplied \<open>onAdd\<close> callback, a submit
  attempt invokes the callback exactly once, with the pending-value mapping. When the
  callback returns, the pending form state and the error state are afterwards both the
  empty mapping. When the callback throws, the thrown value is logged, the error state is
  the empty mapping and the pending form state is kept as it was.
\<close>

theorem handleAdd_valid_submit:
  assumes "\<forall>f\<in>set (formFields p). \<not> truthy (fieldError (formState st) f)"
    and "onAdd p = Some callback"
  shows "(callback (formState st) = Returned \<longrightarrow>
            handleAdd p st =
              (Returned, st\<lparr>formState := Map.empty, formErrors := Map.empty,
                             trace := trace st @ [OnAddCalled (formState st)]\<rparr>)) \<and>
         (callback (formState st) = Threw err \<longrightarrow>
            handleAdd p st =
              (Returned, st\<lparr>formErrors := Map.empty,
                             trace := trace st @ [OnAddCalled (formState st),
                                                  ConsoleError ''Error adding item:'' err]\<rparr>))"
  using assms loop_all_valid[OF assms(1), of Map.empty True]
  by (simp add: handleAdd_def validateForm_eq try_catch_def andThen_def invoke_def emit_def
      console_error_def)

theorem handleAdd_valid_submit_witness:
  "handleAdd mockProps (run mockProps filledActions) =
     (Returned,
      \<lparr>formState = Map.empty, search = [], formErrors = Map.empty, editingItem = None,
       trace = [OnAddCalled [''name'' \<mapsto> JStr ''New User'', ''email'' \<mapsto> JStr ''new@example.com'']]\<rparr>)"
proof -
  have "\<forall>f\<in>set (formFields mockProps).
          \<not> truthy (fieldError (formState (run mockProps filledActions)) f)"
    using mock_fields_filled_valid by (simp add: run_filled mockProps_def)
  moreover have "onAdd mockProps = Some acceptingCallback"
    by (simp add: mockProps_def)
  ultimately show ?thesis
    using handleAdd_valid_submit [of mockProps "run mockProps filledActions" acceptingCallback]
    by (simp add: run_filled acceptingCallback_def)
qed

text \<open>
  C2 as stated fails when the callback throws: with the filled form of the test suite
  every field is valid, \<open>onAdd\<close> is invoked once, and the pending values are still there
  afterwards.
\<close>

theorem handleAdd_reset_counterexample:
  "fst (validateForm throwingProps (run throwingProps filledActions)) \<and>
   trace (snd (handleAdd throwingProps (run throwingProps filledActions))) =
     [OnAddCalled [''name'' \<mapsto> JStr ''New User'', ''email'' \<mapsto> JStr ''new@example.com''],
      ConsoleError ''Error adding item:'' (JStr ''boom'')] \<and>
   formState (snd (handleAdd throwingProps (run throwingProps filledActions))) ''name''
     = Some (JStr ''New User'') \<and>
   formState (snd (handleAdd throwingProps (run throwingProps filledActions))) \<noteq> Map.empty"
proof -
  have v: "\<forall>f\<in>set (formFields throwingProps).
          \<not> truthy (fieldError [''name'' \<mapsto> JStr ''New User'', ''email'' \<mapsto> JStr ''new@example.com''] f)"
    using mock_fields_filled_valid by (simp add: throwingProps_def mockProps_def)
  have h: "handleAdd throwingProps (run throwingProps filledActions) =
      (Returned,
       \<lparr>formState = [''name'' \<mapsto> JStr ''New User'', ''email'' \<mapsto> JStr ''new@example.com''],
        search = [], formErrors = Map.empty, editingItem = None,
        trace = [OnAddCalled [''name'' \<mapsto> JStr ''New User'', ''email'' \<mapsto> JStr ''new@example.com''],
                 ConsoleError ''Error adding item:'' (JStr ''boom'')]\<rparr>)"
    using v loop_all_valid[OF v, of Map.empty True]
    by (simp add: run_filled handleAdd_def validateForm_eq try_catch_def andThen_def invoke_def
        emit_def console_error_def throwingCallback_def throwingProps_def mockProps_def)
  have "formState (snd (handleAdd throwingProps (run throwingProps filledActions))) ''name''
          = Some (JStr ''New User'')"
    by (simp add: h)
  moreover from this
  have "formState (snd (handleAdd throwingProps (run throwingProps filledActions))) \<noteq> Map.empty"
    by (metis option.distinct(1))
  moreover have "fst (validateForm throwingProps (run throwingProps filledActions))"
    using v by (simp add: validateForm_eq run_filled)
  ultimately show ?thesis
    by (simp add: h)
qed

text \<open>
  C3, as the code has it. For every form state and field declaration list in which at
  least one declared field has an error (a truthy result of \<open>validateField\<close>, such as a
  non-empty message), the submission is aborted: \<open>onAdd\<close> is not invoked, nothing is
  logged, the pending values are kept, and under the key of every erring field the error
  state holds the message of an erring field with that key. When the keys of the declared
  fields are pairwise distinct, that is the erring field's own message.
\<close>

theorem handleAdd_invalid_submit:
  assumes "\<exists>f\<in>set (formFields p). truthy (fieldError (formState st) f)"
  shows "fst (handleAdd p st) = Returned \<and>
         trace (snd (handleAdd p st)) = trace st \<and>
         formState (snd (handleAdd p st)) = formState st \<and>
         (\<forall>f\<in>set (formFields p). truthy (fieldError (formState st) f) \<longrightarrow>
            (\<exists>g\<in>set (formFields p). key g = key f \<and> truthy (fieldError (formState st) g) \<and>
               formErrors (snd (handleAdd p st)) (key f) = Some (fieldError (formState st) g))) \<and>
         (distinct (map key (formFields p)) \<longrightarrow>
            (\<forall>f\<in>set (formFields p). truthy (fieldError (formState st) f) \<longrightarrow>
               formErrors (snd (handleAdd p st)) (key f) = Some (fieldError (formState st) f)))"
proof -
  have h: "handleAdd p st =
      (Returned, st\<lparr>formErrors := fst (validateForm_loop (formFields p) (formState st) (Map.empty, True))\<rparr>)"
    using assms by (simp add: handleAdd_def validateForm_eq)
  have r: "\<forall>f\<in>set (formFields p). truthy (fieldError (formState st) f) \<longrightarrow>
            (\<exists>g\<in>set (formFields p). key g = key f \<and> truthy (fieldError (formState st) g) \<and>
               fst (validateForm_loop (formFields p) (formState st) (Map.empty, True)) (key f)
                = Some (fieldError (formState st) g))"
    using loop_recorded[of "formFields p" _ "formState st" Map.empty True] by blast
  show ?thesis using r by (simp add: h loop_distinct)
qed

theorem handleAdd_invalid_submit_witness:
  "truthy (fieldError (formState (mount mockProps)) (hd (formFields mockProps))) \<and>
   distinct (map key (formFields mockProps)) \<and>
   trace (snd (handleAdd mockProps (mount mockProps))) = [] \<and>
   formErrors (snd (handleAdd mockProps (mount mockProps))) ''name'' = Some (JStr ''Name is required'') \<and>
   formErrors (snd (handleAdd mockProps (mount mockProps))) ''email'' = Some (JStr ''Email is required'')"
proof -
  have e: "fieldError (formState (mount mockProps)) (formFields mockProps ! 0) = JStr ''Name is required''"
    "fieldError (formState (mount mockProps)) (formFields mockProps ! 1) = JStr ''Email is required''"
    by (simp_all add: mount_def mockProps_def mockFormFields_def validateField_def getProp_def)
  have k: "key (formFields mockProps ! 0) = ''name''" "key (formFields mockProps ! 1) = ''email''"
    "formFields mockProps = [formFields mockProps ! 0, formFields mockProps ! 1]"
    by (simp_all add: mockProps_def mockFormFields_def)
  have d: "distinct (map key (formFields mockProps))"
    by (simp add: mockProps_def mockFormFields_def)
  have ex: "\<exists>f\<in>set (formFields mockProps). truthy (fieldError (formState (mount mockProps)) f)"
    using e(1) k(3) by (metis list.set_intros(1) truthy.simps(3) truthyPrim.simps(3) list.distinct(1))
  have m: "formFields mockProps ! 0 \<in> set (formFields mockProps)"
    "formFields mockProps ! 1 \<in> set (formFields mockProps)"
    by (simp_all add: mockProps_def mockFormFields_def)
  have t: "trace (mount mockProps) = []"
    by (simp add: mount_def)
  from handleAdd_invalid_submit [OF ex] d m e k(1,2) t
  have "trace (snd (handleAdd mockProps (mount mockProps))) = [] \<and>
        formErrors (snd (handleAdd mockProps (mount mockProps))) ''name'' = Some (JStr ''Name is required'') \<and>
        formErrors (snd (handleAdd mockProps (mount mockProps))) ''email'' = Some (JStr ''Email is required'')"
    by (metis truthy.simps(3) truthyPrim.simps(3) list.distinct(1))
  moreover have "truthy (fieldError (formState (mount mockProps)) (hd (formFields mockProps)))"
    by (simp add: mount_def mockProps_def mockFormFields_def validateField_def getProp_def)
  ultimately show ?thesis using d by simp
qed

text \<open>
  C3 as stated fails in two ways. Two required fields declared under one key, both left
  blank: the first field's message is not in the error state, which holds the second
  field's message under that key. A field whose validation function returns the empty
  string, a result other than \<open>true\<close>: \<open>validateField\<close> returns it as the field's error, yet
  the submission goes through and \<open>onAdd\<close> is invoked.
\<close>

theorem handleAdd_abort_counterexample:
  "fieldError (formState (mount mockProps)) (hd sameKeyFields) = JStr ''First name is required'' \<and>
   formErrors (snd (handleAdd (mockProps\<lparr>formFields := sameKeyFields\<rparr>) (mount mockProps))) ''name''
     = Some (JStr ''Last name is required'') \<and>
   validation (hd emptyMessageFields) = Some emptyMessage \<and>
   emptyMessage JUndefined \<noteq> JBool True \<and>
   validateField (hd emptyMessageFields) JUndefined = (JStr [], [JUndefined]) \<and>
   trace (snd (handleAdd (mockProps\<lparr>formFields := emptyMessageFields\<rparr>) (mount mockProps)))
     = [OnAddCalled Map.empty]"
  by (simp add: mount_def getProp_def handleAdd_def validateForm_def validateField_def Let_def
      mockProps_def sameKeyFields_def emptyMessageFields_def emptyMessage_def
      try_catch_def andThen_def invoke_def emit_def console_error_def acceptingCallback_def)

text \<open>
  C9, as the code has it. For the fields
  \<open>[{key:"name",label:"Name",required:true},{key:"email",label:"Email",required:true}]\<close>
  and a submit attempt with both pending values blank, the resulting error state is
  exactly \<open>{name:"Name is required", email:"Email is required"}\<close>, \<open>onAdd\<close> is not called,
  and nothing else changes.
\<close>

theorem labelled_fields_blank_submit:
  assumes "formFields p = labelledFields"
    and "blankValue (getProp (formState st) ''name'')"
    and "blankValue (getProp (formState st) ''email'')"
  shows "handleAdd p st =
           (Returned, st\<lparr>formErrors :=
              [''name'' \<mapsto> JStr ''Name is required'', ''email'' \<mapsto> JStr ''Email is required'']\<rparr>)"
  using assms
  by (simp add: handleAdd_def validateForm_def labelledFields_def validateField_def)

theorem labelled_fields_blank_submit_witness:
  "formFields (mockProps\<lparr>formFields := labelledFields\<rparr>) = labelledFields \<and>
   blankValue (getProp (formState (mount mockProps)) ''name'') \<and>
   blankValue (getProp (formState (mount mockProps)) ''email'') \<and>
   formErrors (snd (handleAdd (mockProps\<lparr>formFields := labelledFields\<rparr>) (mount mockProps)))
     = [''name'' \<mapsto> JStr ''Name is required'', ''email'' \<mapsto> JStr ''Email is required''] \<and>
   trace (snd (handleAdd (mockProps\<lparr>formFields := labelledFields\<rparr>) (mount mockProps))) = []"
proof -
  have b: "blankValue (getProp (formState (mount mockProps)) ''name'')"
    "blankValue (getProp (formState (mount mockProps)) ''email'')"
    by (simp_all add: mount_def getProp_def)
  have f: "formFields (mockProps\<lparr>formFields := labelledFields\<rparr>) = labelledFields"
    by simp
  show ?thesis
    using labelled_fields_blank_submit [OF f b] b by (simp add: mount_def)
qed

text \<open>
  C9 as stated fails: the fields as written in the claim declare no label, and the
  message is built from the label, so both messages read \<open>undefined is required\<close>.
\<close>

theorem unlabelled_fields_counterexample:
  "formErrors (snd (handleAdd (mockProps\<lparr>formFields := unlabelledFields\<rparr>) (mount mockProps)))
     = [''name'' \<mapsto> JStr ''undefined is required'', ''email'' \<mapsto> JStr ''undefined is required''] \<and>
   formErrors (snd (handleAdd (mockProps\<lparr>formFields := unlabelledFields\<rparr>) (mount mockProps)))
     \<noteq> [''name'' \<mapsto> JStr ''Name is required'', ''email'' \<mapsto> JStr ''Email is required'']"
proof -
  have h: "formErrors (snd (handleAdd (mockProps\<lparr>formFields := unlabelledFields\<rparr>) (mount mockProps)))
     = [''name'' \<mapsto> JStr ''undefined is required'', ''email'' \<mapsto> JStr ''undefined is required'']"
    by (simp add: mount_def getProp_def handleAdd_def validateForm_def validateField_def Let_def
        mockProps_def unlabelledFields_def)
  have "[''name'' \<mapsto> JStr ''undefined is required'', ''email'' \<mapsto> JStr ''undefined is required''] ''name''
        \<noteq> [''name'' \<mapsto> JStr ''Name is required'', ''email'' \<mapsto> JStr ''Email is required''] ''name''"
    by simp
  then have "[''name'' \<mapsto> JStr ''undefined is required'', ''email'' \<mapsto> JStr ''undefined is required'']
        \<noteq> [''name'' \<mapsto> JStr ''Name is required'', ''email'' \<mapsto> JStr ''Email is required'']"
    by metis
  with h show ?thesis by simp
qed

subsection \<open>Deleting a record\<close>

text \<open>
  C5. For every record, a click on its Delete button (rendered when an \<open>onDelete\<close>
  callback is supplied): when \<open>confirmDelete\<close> is true and the confirmation is declined,
  \<open>onDelete\<close> is not invoked; when the confirmation is accepted, or \<open>confirmDelete\<close> is
  false, \<open>onDelete\<close> is invoked exactly once, with the record's \<open>id\<close>. The only other
  effects are the dialog itself and, if the callback throws, the logged error.
\<close>

theorem deleteButtonClick_confirmation:
  assumes "onDelete p = Some callback"
  shows "(confirmDelete p \<and> \<not> window_confirm ''Are you sure you want to delete this item?'' \<longrightarrow>
            deleteButtonClick window_confirm p item st =
              (Returned, st\<lparr>trace := trace st @
                 [ConfirmShown ''Are you sure you want to delete this item?'']\<rparr>)) \<and>
         (confirmDelete p \<and> window_confirm ''Are you sure you want to delete this item?'' \<longrightarrow>
            deleteButtonClick window_confirm p item st =
              (Returned, st\<lparr>trace := trace st @
                 [ConfirmShown ''Are you sure you want to delete this item?'',
                  OnDeleteCalled (getProp item ''id'')]
                 @ caught ''Error deleting item:'' (callback (getProp item ''id''))\<rparr>)) \<and>
         (\<not> confirmDelete p \<longrightarrow>
            deleteButtonClick window_confirm p item st =
              (Returned, st\<lparr>trace := trace st @ [OnDeleteCalled (getProp item ''id'')]
                 @ caught ''Error deleting item:'' (callback (getProp item ''id''))\<rparr>))"
  using assms
  by (simp add: deleteButtonClick_def handleDelete_def tryDelete_eq emit_def Let_def)

theorem deleteButtonClick_confirmation_witness:
  "onDelete mockProps = Some acceptingCallback \<and> confirmDelete mockProps \<and>
   trace (snd (deleteButtonClick declineDialog mockProps mockJohn (mount mockProps))) =
     [ConfirmShown ''Are you sure you want to delete this item?''] \<and>
   trace (snd (deleteButtonClick acceptDialog mockProps mockJohn (mount mockProps))) =
     [ConfirmShown ''Are you sure you want to delete this item?'', OnDeleteCalled (JNum 1)] \<and>
   trace (snd (deleteButtonClick acceptDialog (mockProps\<lparr>confirmDelete := False\<rparr>) mockJohn
                 (mount mockProps))) =
     [OnDeleteCalled (JNum 1)]"
proof -
  have c: "onDelete mockProps = Some acceptingCallback" "confirmDelete mockProps"
    "onDelete (mockProps\<lparr>confirmDelete := False\<rparr>) = Some acceptingCallback"
    by (simp_all add: mockProps_def)
  have i: "getProp mockJohn ''id'' = JNum 1"
    by (simp add: getProp_def mockJohn_def)
  show ?thesis
    using deleteButtonClick_confirmation [OF c(1), of declineDialog mockJohn "mount mockProps"]
      deleteButtonClick_confirmation [OF c(1), of acceptDialog mockJohn "mount mockProps"]
      deleteButtonClick_confirmation [OF c(3), of acceptDialog mockJohn "mount mockProps"]
    by (simp add: c i declineDialog_def acceptDialog_def acceptingCallback_def caught_def mount_def)
qed

subsection \<open>Callbacks that throw\<close>

text \<open>
  C6. The add, edit and delete handlers never finish by throwing. When the caller's
  callback throws on its invocation, the handler's effects are exactly the one
  invocation (after the confirmation dialog, for a confirmed delete) followed by one
  \<open>console.error\<close> line carrying the thrown value: the error is caught and logged, it does
  not leave the handler, and the callback is not invoked again.
\<close>

theorem callback_errors_caught:
  "fst (handleAdd p st) = Returned \<and>
   fst (handleEdit p item st) = Returned \<and>
   fst (handleDelete window_confirm p itemId st) = Returned \<and>
   (onAdd p = Some addCallback \<and> fst (validateForm p st) \<and> addCallback (formState st) = Threw err \<longrightarrow>
      trace (snd (handleAdd p st))
        = trace st @ [OnAddCalled (formState st), ConsoleError ''Error adding item:'' err]) \<and>
   (onEdit p = Some editCallback \<and> editCallback item = Threw err \<longrightarrow>
      trace (snd (handleEdit p item st))
        = trace st @ [OnEditCalled item, ConsoleError ''Error editing item:'' err]) \<and>
   (onDelete p = Some deleteCallback \<and> \<not> confirmDelete p \<and> deleteCallback itemId = Threw err \<longrightarrow>
      trace (snd (handleDelete window_confirm p itemId st))
        = trace st @ [OnDeleteCalled itemId, ConsoleError ''Error deleting item:'' err]) \<and>
   (onDelete p = Some deleteCallback \<and> confirmDelete p \<and>
    window_confirm ''Are you sure you want to delete this item?'' \<and> deleteCallback itemId = Threw err \<longrightarrow>
      trace (snd (handleDelete window_confirm p itemId st))
        = trace st @ [ConfirmShown ''Are you sure you want to delete this item?'',
                      OnDeleteCalled itemId, ConsoleError ''Error deleting item:'' err])"
  by (simp add: handleAdd_returns handleEdit_returns handleDelete_returns)
     (simp add: handleAdd_def handleEdit_def handleDelete_def validateForm_eq try_catch_def
       andThen_def invoke_def console_error_def emit_def Let_def)

theorem callback_errors_caught_witness:
  "onEdit throwingProps = Some throwingCallback \<and>
   throwingCallback mockJohn = Threw (JStr ''boom'') \<and>
   handleEdit throwingProps mockJohn (mount throwingProps) =
     (Returned, (mount throwingProps)\<lparr>trace :=
        [OnEditCalled mockJohn, ConsoleError ''Error editing item:'' (JStr ''boom'')]\<rparr>) \<and>
   onDelete throwingProps = Some throwingCallback \<and> confirmDelete throwingProps \<and>
   trace (snd (handleDelete acceptDialog throwingProps (JNum 1) (mount throwingProps))) =
     [ConfirmShown ''Are you sure you want to delete this item?'', OnDeleteCalled (JNum 1),
      ConsoleError ''Error deleting item:'' (JStr ''boom'')] \<and>
   onAdd throwingProps = Some throwingCallback \<and>
   fst (validateForm throwingProps (run throwingProps filledActions)) \<and>
   trace (snd (handleAdd throwingProps (run throwingProps filledActions))) =
     [OnAddCalled [''name'' \<mapsto> JStr ''New User'', ''email'' \<mapsto> JStr ''new@example.com''],
      ConsoleError ''Error adding item:'' (JStr ''boom'')]"
proof -
  have c: "onEdit throwingProps = Some throwingCallback" "onDelete throwingProps = Some throwingCallback"
    "onAdd throwingProps = Some throwingCallback" "confirmDelete throwingProps"
    by (simp_all add: throwingProps_def mockProps_def)
  have t: "\<And>x::obj. throwingCallback x = Threw (JStr ''boom'')"
    "throwingCallback (JNum 1) = Threw (JStr ''boom'')"
    by (simp_all add: throwingCallback_def)
  have v: "fst (validateForm throwingProps (run throwingProps filledActions))"
    using mock_fields_filled_valid
    by (simp add: validateForm_eq run_filled throwingProps_def mockProps_def)
  have v': "fst (validateForm throwingProps
      \<lparr>formState = [''name'' \<mapsto> JStr ''New User'', ''email'' \<mapsto> JStr ''new@example.com''],
       search = [], formErrors = Map.empty, editingItem = None, trace = []\<rparr>)"
    using v by (simp add: run_filled)
  have e: "snd (handleEdit throwingProps mockJohn (mount throwingProps)) =
      (mount throwingProps)\<lparr>trace := trace (snd (handleEdit throwingProps mockJohn (mount throwingProps)))\<rparr>"
    by (simp add: handleEdit_def c t try_catch_def invoke_def console_error_def emit_def)
  have m: "trace (mount throwingProps) = []"
    by (simp add: mount_def)
  from callback_errors_caught [of throwingProps "run throwingProps filledActions" mockJohn
      acceptDialog "JNum 1" throwingCallback "JStr ''boom''" throwingCallback throwingCallback]
    callback_errors_caught [of throwingProps "mount throwingProps" mockJohn
      acceptDialog "JNum 1" throwingCallback "JStr ''boom''" throwingCallback throwingCallback]
  have "trace (snd (handleAdd throwingProps (run throwingProps filledActions))) =
           trace (run throwingProps filledActions) @
             [OnAddCalled (formState (run throwingProps filledActions)),
              ConsoleError ''Error adding item:'' (JStr ''boom'')]"
    and "fst (handleEdit throwingProps mockJohn (mount throwingProps)) = Returned"
    and "trace (snd (handleEdit throwingProps mockJohn (mount throwingProps))) =
           [OnEditCalled mockJohn, ConsoleError ''Error editing item:'' (JStr ''boom'')]"
    and "trace (snd (handleDelete acceptDialog throwingProps (JNum 1) (mount throwingProps))) =
           [ConfirmShown ''Are you sure you want to delete this item?'', OnDeleteCalled (JNum 1),
            ConsoleError ''Error deleting item:'' (JStr ''boom'')]"
    by (simp_all add: c t v m acceptDialog_def)
  with e show ?thesis
    by (simp add: c t v v' run_filled prod_eq_iff)
qed

subsection \<open>Default values of fields\<close>

lemma validateField_defaultValue: "validateField (f\<lparr>defaultValue := x\<rparr>) v = validateField f v"
  by (simp add: validateField_def)

lemma loop_defaultValue:
  "validateForm_loop (map (\<lambda>f. f\<lparr>defaultValue := d f\<rparr>) flds) fs acc = validateForm_loop flds fs acc"
  by (induction flds fs acc rule: validateForm_loop.induct)
     (simp_all add: validateField_defaultValue Let_def)

lemma handleAdd_defaultValue:
  "handleAdd (p\<lparr>formFields := map (\<lambda>f. f\<lparr>defaultValue := d f\<rparr>) (formFields p)\<rparr>) st = handleAdd p st"
  by (simp add: handleAdd_def validateForm_def loop_defaultValue split: prod.splits)

lemma step_defaultValue:
  "step (p\<lparr>formFields := map (\<lambda>f. f\<lparr>defaultValue := d f\<rparr>) (formFields p)\<rparr>) a st = step p a st"
  by (cases a) (simp_all add: handleFormSubmit_def handleAdd_defaultValue)

text \<open>
  C10. For every field declaration list, the pending form state starts as the empty
  mapping, and the declared \<open>defaultValue\<close> of a field is never read: replacing the
  default values of the declared fields by any others (\<open>d\<close>) changes neither the initial
  state, nor the value shown by an input (the empty string at the start), nor what a
  submit does (in particular the mapping passed to \<open>onAdd\<close>), nor the state reached by
  any sequence of typing and submitting.
\<close>

theorem defaultValue_never_read:
  "formState (mount p) = Map.empty \<and>
   mount (p\<lparr>formFields := map (\<lambda>f. f\<lparr>defaultValue := d f\<rparr>) (formFields p)\<rparr>) = mount p \<and>
   inputValue (mount p) field = JStr [] \<and>
   inputValue st (field\<lparr>defaultValue := x\<rparr>) = inputValue st field \<and>
   handleAdd (p\<lparr>formFields := map (\<lambda>f. f\<lparr>defaultValue := d f\<rparr>) (formFields p)\<rparr>) st = handleAdd p st \<and>
   run (p\<lparr>formFields := map (\<lambda>f. f\<lparr>defaultValue := d f\<rparr>) (formFields p)\<rparr>) actions = run p actions"
proof -
  have "step (p\<lparr>formFields := map (\<lambda>f. f\<lparr>defaultValue := d f\<rparr>) (formFields p)\<rparr>) = step p"
    by (intro ext) (rule step_defaultValue)
  then show ?thesis
    by (simp add: run_def mount_def inputValue_def getProp_def handleAdd_defaultValue)
qed

theorem defaultValue_never_read_witness:
  "defaultValue codeField = Some (JStr ''abc'') \<and>
   formState (mount (mockProps\<lparr>formFields := [codeField]\<rparr>)) = Map.empty \<and>
   inputValue (mount (mockProps\<lparr>formFields := [codeField]\<rparr>)) codeField = JStr [] \<and>
   run (mockProps\<lparr>formFields := [codeField\<lparr>defaultValue := None\<rparr>]\<rparr>) [TypeInto ''code'' ''abcd'', SubmitForm]
     = run (mockProps\<lparr>formFields := [codeField]\<rparr>) [TypeInto ''code'' ''abcd'', SubmitForm] \<and>
   trace (run (mockProps\<lparr>formFields := [codeField]\<rparr>) [SubmitForm]) = [] \<and>
   formErrors (run (mockProps\<lparr>formFields := [codeField]\<rparr>) [SubmitForm]) ''code''
     = Some (JStr ''Code is required'')"
proof -
  have s: "run (mockProps\<lparr>formFields := [codeField]\<rparr>) [SubmitForm] =
      \<lparr>formState = Map.empty, search = [], formErrors = [''code'' \<mapsto> JStr ''Code is required''],
       editingItem = None, trace = []\<rparr>"
    by (simp add: run_def mount_def handleFormSubmit_def handleAdd_def validateForm_def
        validateField_def getProp_def codeField_def mockProps_def Let_def)
  show ?thesis
    using defaultValue_never_read [of "mockProps\<lparr>formFields := [codeField]\<rparr>" "\<lambda>f. None"
        codeField "mount mockProps" None "[TypeInto ''code'' ''abcd'', SubmitForm]"]
    by (simp add: s) (simp add: codeField_def)
qed

section \<open>Properties of the style resolver\<close>

lemma fold_upd_map_of:
  "distinct (map fst xs) \<Longrightarrow>
   fold (\<lambda>(k, d) m. m(k \<mapsto> g k d)) xs m0 k
     = (case map_of xs k of Some d \<Rightarrow> Some (g k d) | None \<Rightarrow> m0 k)"
proof (induction xs arbitrary: m0)
  case Nil
  then show ?case by simp
next
  case (Cons a xs)
  obtain ka da where a: "a = (ka, da)"
    by (cases a)
  from Cons.prems a have "ka \<notin> fst ` set xs" and d: "distinct (map fst xs)"
    by auto
  then have "map_of xs ka = None"
    by (simp add: map_of_eq_None_iff)
  with Cons.IH[OF d] a show ?case
    by (auto split: option.splits)
qed

lemma distinct_regions: "distinct (map fst defaultStyles)"
  by (simp add: defaultStyles_def)

text \<open>
  C8. For each region named in \<open>defaultStyles\<close>, the resolved style is the default style
  object of the region with the caller's override for the region merged on top, property
  by property: a property of the override wins, any other property keeps its default. The
  override is taken as it is, whatever its properties and values. (A region that
  \<open>defaultStyles\<close> does not name has no resolved style.)
\<close>

theorem styles_shallow_merge:
  "(map_of defaultStyles region = None \<longrightarrow> styles custom region = None) \<and>
   (\<forall>dflt. map_of defaultStyles region = Some dflt \<longrightarrow>
      (\<exists>resolved. styles custom region = Some resolved \<and>
         (\<forall>prop. resolved prop =
            (case custom region of
               None \<Rightarrow> map_of dflt prop
             | Some override \<Rightarrow>
                 (case override prop of Some v \<Rightarrow> Some v | None \<Rightarrow> map_of dflt prop)))))"
  by (simp add: styles_def fold_upd_map_of[OF distinct_regions] spread_def map_add_def
      split: option.splits)

theorem styles_shallow_merge_witness:
  "\<exists>resolved. styles redContainer ''container'' = Some resolved \<and>
     resolved ''backgroundColor'' = Some ''red'' \<and>
     resolved ''maxWidth'' = Some ''1200px'' \<and>
     resolved ''zIndex'' = None"
  using styles_shallow_merge [of "''container''" redContainer]
  by (auto simp add: defaultStyles_def redContainer_def)

end
